theory Spec2Isabelle
  imports Complex_Main "HOL-Library.Char_ord" "HOL-Library.List_Lexorder" "HOL-Library.Multiset"
begin

section \<open>The movie rating database: data model\<close>

text \<open>
  The class \<open>MovieDatabase\<close> of \<open>movie_database.py\<close> keeps two SQLite tables and reaches them
  through one connection. The embedding gives the tables as lists of rows in insertion
  order, the \<open>sqlite_sequence\<close> counters that \<open>AUTOINCREMENT\<close> maintains, and the one
  connection setting that the schema depends on, \<open>PRAGMA foreign_keys\<close>.

  Text values are \<open>string\<close>s, a character standing for a code point below 256, compared
  character by character (SQLite's \<open>BINARY\<close> collation); \<open>CURRENT_TIMESTAMP\<close> is such a
  text value, handed to the inserting operations as the argument \<open>now\<close>.

  A Python \<open>float\<close> is an IEEE double: one of the three non-finite values or a finite
  one, given by its exact rational value. \<open>AVG\<close> and \<open>ROUND\<close> compute in doubles, every
  operation rounded to the nearest double (\<open>fl\<close>), as SQLite 3.44 and later do.

  The driver binds a Python \<open>int\<close> as a signed 64-bit integer and raises
  \<open>OverflowError\<close> for any other; this is part of \<open>add_movie\<close> (the year) and of
  \<open>delete_movie\<close> (the identifier); the identifiers given to the other operations are
  taken to be such integers. Failures of the storage medium (I/O errors, a full
  disk, an exhausted rowid space) are not part of the model.
\<close>

type_synonym timestamp = string

record movie =
  m_id :: int
  m_title :: string
  m_year :: "int option"
  m_genre :: "string option"
  m_director :: "string option"
  m_date_added :: timestamp

record rating =
  r_id :: int
  r_movie_id :: int
  r_rating :: rat
  r_comment :: "string option"
  r_date_rated :: timestamp

datatype pyfloat = Finite rat | PosInf | NegInf | NaN

record store =
  foreign_keys :: bool
  movies :: "movie list"
  ratings :: "rating list"
  movies_seq :: int
  ratings_seq :: int

datatype sql_error = IntegrityError

datatype py_error = OverflowError

text \<open>The integers that the driver can bind as a parameter of a statement.\<close>

definition int64 :: "int \<Rightarrow> bool" where
  "int64 i = (- (2 ^ 63) \<le> i \<and> i < 2 ^ 63)"

definition bindable :: "int option \<Rightarrow> bool" where
  "bindable v = (case v of None \<Rightarrow> True | Some i \<Rightarrow> int64 i)"

section \<open>Connection and schema\<close>

text \<open>A database file that has never been written: no rows, no counters.\<close>

definition empty_db :: store where
  "empty_db = \<lparr>foreign_keys = False, movies = [], ratings = [], movies_seq = 0, ratings_seq = 0\<rparr>"

text \<open>
  \<open>connect\<close> opens the file with \<open>sqlite3.connect\<close> and issues no \<open>PRAGMA\<close>: the new
  connection has SQLite's default, foreign key enforcement switched off, whatever the
  file holds.
\<close>

definition connect :: "store \<Rightarrow> store" where
  "connect db = db\<lparr>foreign_keys := False\<rparr>"

text \<open>\<open>CREATE TABLE IF NOT EXISTS\<close> leaves existing rows alone; a missing table is an empty one.\<close>

definition create_tables :: "store \<Rightarrow> store" where
  "create_tables s = s"

text \<open>\<open>MovieDatabase.__init__\<close>: connect, then create the tables.\<close>

definition init :: "store \<Rightarrow> store" where
  "init db = create_tables (connect db)"

section \<open>The SQL statements\<close>

text \<open>
  \<open>INTEGER PRIMARY KEY AUTOINCREMENT\<close>: the new rowid is one more than the largest rowid
  the table has ever held, which is the larger of the \<open>sqlite_sequence\<close> counter and the
  rowids present.
\<close>

definition next_rowid :: "int \<Rightarrow> int list \<Rightarrow> int" where
  "next_rowid seq ids = fold max ids seq + 1"

text \<open>
  \<open>INSERT INTO movies (title, year, genre, director) VALUES (?, ?, ?, ?)\<close>, with \<open>lastrowid\<close>.
  A year that does not fit in 64 bits stops the statement at the binding of its
  parameters, before anything is written.
\<close>

definition insert_movie ::
  "store \<Rightarrow> timestamp \<Rightarrow> string \<Rightarrow> int option \<Rightarrow> string option \<Rightarrow> string option \<Rightarrow>
   py_error + int \<times> store" where
  "insert_movie s now title year genre director =
     (if \<not> bindable year then Inl OverflowError
      else
        (let i = next_rowid (movies_seq s) (map m_id (movies s))
         in Inr (i, s\<lparr>movies := movies s @
                        [\<lparr>m_id = i, m_title = title, m_year = year, m_genre = genre,
                          m_director = director, m_date_added = now\<rparr>],
                      movies_seq := i\<rparr>)))"

text \<open>
  \<open>INSERT INTO ratings (movie_id, rating, comment) VALUES (?, ?, ?)\<close>. A NaN is bound as
  \<open>NULL\<close> and violates \<open>NOT NULL\<close>; \<open>CHECK(rating >= 0 AND rating <= 10)\<close> rejects the
  infinities and the finite values outside the interval; the \<open>FOREIGN KEY\<close> clause is
  checked only on a connection that enforces foreign keys. Each violation is an
  \<open>IntegrityError\<close> and the statement writes nothing.
\<close>

definition movie_exists :: "store \<Rightarrow> int \<Rightarrow> bool" where
  "movie_exists s movie_id = (movie_id \<in> set (map m_id (movies s)))"

definition insert_rating ::
  "store \<Rightarrow> timestamp \<Rightarrow> int \<Rightarrow> pyfloat \<Rightarrow> string option \<Rightarrow> sql_error + store" where
  "insert_rating s now movie_id v comment =
     (case v of
        NaN \<Rightarrow> Inl IntegrityError
      | PosInf \<Rightarrow> Inl IntegrityError
      | NegInf \<Rightarrow> Inl IntegrityError
      | Finite q \<Rightarrow>
          if \<not> (q \<ge> 0 \<and> q \<le> 10) then Inl IntegrityError
          else if foreign_keys s \<and> \<not> movie_exists s movie_id then Inl IntegrityError
          else
            (let i = next_rowid (ratings_seq s) (map r_id (ratings s))
             in Inr (s\<lparr>ratings := ratings s @
                          [\<lparr>r_id = i, r_movie_id = movie_id, r_rating = q,
                            r_comment = comment, r_date_rated = now\<rparr>],
                        ratings_seq := i\<rparr>)))"

text \<open>
  \<open>DELETE FROM movies WHERE id = ?\<close>, with \<open>rowcount\<close>. An identifier that does not fit in
  64 bits stops the statement at the binding of its parameter. \<open>ON DELETE CASCADE\<close>
  removes the ratings of a deleted movie only on a connection that enforces foreign keys.
\<close>

definition sql_delete_movie :: "store \<Rightarrow> int \<Rightarrow> py_error + nat \<times> store" where
  "sql_delete_movie s movie_id =
     (if \<not> int64 movie_id then Inl OverflowError
      else
        (let rowcount = length (filter (\<lambda>m. m_id m = movie_id) (movies s))
         in Inr (rowcount,
                 s\<lparr>movies := filter (\<lambda>m. m_id m \<noteq> movie_id) (movies s),
                   ratings := (if foreign_keys s \<and> rowcount > 0
                               then filter (\<lambda>r. r_movie_id r \<noteq> movie_id) (ratings s)
                               else ratings s)\<rparr>)))"

section \<open>The operations of \<open>MovieDatabase\<close>\<close>

text \<open>\<open>add_movie\<close> and \<open>delete_movie\<close> catch nothing: an \<open>OverflowError\<close> reaches the caller.\<close>

definition add_movie ::
  "store \<Rightarrow> timestamp \<Rightarrow> string \<Rightarrow> int option \<Rightarrow> string option \<Rightarrow> string option \<Rightarrow>
   py_error + int \<times> store" where
  "add_movie s now title year genre director = insert_movie s now title year genre director"

text \<open>\<open>add_rating\<close> catches \<open>sqlite3.IntegrityError\<close> and returns \<open>False\<close>.\<close>

definition add_rating ::
  "store \<Rightarrow> timestamp \<Rightarrow> int \<Rightarrow> pyfloat \<Rightarrow> string option \<Rightarrow> bool \<times> store" where
  "add_rating s now movie_id v comment =
     (case insert_rating s now movie_id v comment of
        Inr s' \<Rightarrow> (True, s')
      | Inl IntegrityError \<Rightarrow> (False, s))"

definition delete_movie :: "store \<Rightarrow> int \<Rightarrow> py_error + bool \<times> store" where
  "delete_movie s movie_id =
     (case sql_delete_movie s movie_id of
        Inl e \<Rightarrow> Inl e
      | Inr (rowcount, s') \<Rightarrow> Inr (rowcount > 0, s'))"

text \<open>The store after a call: the one it returns, or the unchanged one when it raises.\<close>

definition after :: "store \<Rightarrow> py_error + 'a \<times> store \<Rightarrow> store" where
  "after s r = (case r of Inl e \<Rightarrow> s | Inr (x, s') \<Rightarrow> s')"

text \<open>\<open>get_movie_by_id\<close>: \<open>fetchone\<close> gives the first row, or \<open>None\<close>.\<close>

definition get_movie_by_id ::
  "store \<Rightarrow> int \<Rightarrow> (int \<times> string \<times> int option \<times> string option \<times> string option \<times> timestamp) option" where
  "get_movie_by_id s movie_id =
     (case filter (\<lambda>m. m_id m = movie_id) (movies s) of
        [] \<Rightarrow> None
      | m # _ \<Rightarrow> Some (m_id m, m_title m, m_year m, m_genre m, m_director m, m_date_added m))"

text \<open>\<open>ORDER BY date_rated DESC\<close>: insertion into a list kept in descending key order.\<close>

fun insort_desc :: "('a \<Rightarrow> 'k::linorder) \<Rightarrow> 'a \<Rightarrow> 'a list \<Rightarrow> 'a list" where
  "insort_desc f x [] = [x]"
| "insort_desc f x (y # ys) = (if f x \<ge> f y then x # y # ys else y # insort_desc f x ys)"

definition order_by_desc :: "('a \<Rightarrow> 'k::linorder) \<Rightarrow> 'a list \<Rightarrow> 'a list" where
  "order_by_desc f xs = foldr (insort_desc f) xs []"

definition get_movie_ratings :: "store \<Rightarrow> int \<Rightarrow> (rat \<times> string option \<times> timestamp) list" where
  "get_movie_ratings s movie_id =
     map (\<lambda>r. (r_rating r, r_comment r, r_date_rated r))
       (order_by_desc r_date_rated (filter (\<lambda>r. r_movie_id r = movie_id) (ratings s)))"

subsection \<open>The aggregate queries\<close>

text \<open>\<open>FROM movies m LEFT JOIN ratings r ON m.id = r.movie_id\<close>.\<close>

type_synonym joined = "movie \<times> rating option"

definition join_rows :: "movie \<Rightarrow> rating list \<Rightarrow> joined list" where
  "join_rows m rs =
     (case filter (\<lambda>r. r_movie_id r = m_id m) rs of
        [] \<Rightarrow> [(m, None)]
      | y # ys \<Rightarrow> map (\<lambda>r. (m, Some r)) (y # ys))"

definition left_join :: "movie list \<Rightarrow> rating list \<Rightarrow> joined list" where
  "left_join ms rs = concat (map (\<lambda>m. join_rows m rs) ms)"

text \<open>\<open>GROUP BY m.id\<close>: one group for each value of \<open>m.id\<close> among the joined rows.\<close>

definition group_by_id :: "joined list \<Rightarrow> joined list list" where
  "group_by_id js =
     map (\<lambda>k. filter (\<lambda>j. m_id (fst j) = k) js) (sort (remdups (map (\<lambda>j. m_id (fst j)) js)))"

text \<open>
  Double arithmetic. \<open>fl x\<close> is the double nearest to the rational \<open>x\<close>, a tie going to
  the even significand: with \<open>2 ^ e \<le> |x| < 2 ^ (e + 1)\<close> the doubles around \<open>x\<close> are the
  multiples of \<open>2 ^ (e - 52)\<close>, and of \<open>2 ^ (- 1074)\<close> in the subnormal range. Sums and
  means of ratings, which are at most 10, stay far below the largest double.
\<close>

definition pow2 :: "int \<Rightarrow> rat" where
  "pow2 e = (if 0 \<le> e then 2 ^ nat e else 1 / 2 ^ nat (- e))"

function bit_length :: "int \<Rightarrow> int" where
  "bit_length a = (if 0 < a then bit_length (a div 2) + 1 else 0)"
  by pat_completeness auto
termination
  by (relation "measure nat") auto

definition ilog2 :: "rat \<Rightarrow> int" where
  "ilog2 x =
     (case quotient_of x of (a, b) \<Rightarrow>
        (let k = bit_length a - bit_length b
         in if pow2 k \<le> x then k else k - 1))"

definition round_half_even :: "rat \<Rightarrow> int" where
  "round_half_even y =
     (let f = \<lfloor>y\<rfloor>; d = y - of_int f
      in if d < 1 / 2 then f else if 1 / 2 < d then f + 1 else if even f then f else f + 1)"

definition fl :: "rat \<Rightarrow> rat" where
  "fl x =
     (if x = 0 then 0
      else (let q = pow2 (max (ilog2 \<bar>x\<bar> - 52) (- 1074))
            in q * of_int (round_half_even (x / q))))"

text \<open>
  \<open>AVG\<close> and \<open>COUNT\<close> skip \<open>NULL\<close>; \<open>AVG\<close> of no value is \<open>NULL\<close>, and so is \<open>ROUND\<close> of
  \<open>NULL\<close>. \<open>AVG\<close> adds the values in the order of the rows with the compensated
  summation of Kahan, Babuska and Neumaier (a running sum and an error term, both
  doubles), adds the error term to the sum at the end and divides by the count.
  \<open>ROUND(x, 2)\<close> rounds the value of the double \<open>x\<close> to the nearest hundredth, a half
  away from zero, and returns the double nearest to that.
\<close>

definition group_ratings :: "joined list \<Rightarrow> rating list" where
  "group_ratings g = concat (map (\<lambda>j. case snd j of None \<Rightarrow> [] | Some r \<Rightarrow> [r]) g)"

definition kbn_step :: "rat \<times> rat \<Rightarrow> rat \<Rightarrow> rat \<times> rat" where
  "kbn_step acc r =
     (case acc of (s, err) \<Rightarrow>
        (let t = fl (s + r)
         in (t, if \<bar>r\<bar> < \<bar>s\<bar> then fl (err + fl (fl (s - t) + r))
                else fl (err + fl (fl (r - t) + s)))))"

definition sql_avg :: "rat list \<Rightarrow> rat option" where
  "sql_avg xs =
     (if xs = [] then None
      else (case fold (\<lambda>r acc. kbn_step acc r) xs (0, 0) of
              (s, err) \<Rightarrow> Some (fl (fl (s + err) / of_nat (length xs)))))"

definition round2 :: "rat \<Rightarrow> rat" where
  "round2 x = (if x < 0 then - (of_int \<lfloor>- x * 100 + 1 / 2\<rfloor> / 100)
               else of_int \<lfloor>x * 100 + 1 / 2\<rfloor> / 100)"

definition sql_round2 :: "rat option \<Rightarrow> rat option" where
  "sql_round2 v = map_option (\<lambda>x. fl (round2 x)) v"

definition avg_rating :: "joined list \<Rightarrow> rat option" where
  "avg_rating g = sql_round2 (sql_avg (map r_rating (group_ratings g)))"

definition rating_count :: "joined list \<Rightarrow> nat" where
  "rating_count g = length (map r_id (group_ratings g))"

type_synonym movie_summary =
  "int \<times> string \<times> int option \<times> string option \<times> string option \<times> rat option \<times> nat"

type_synonym search_result =
  "int \<times> string \<times> int option \<times> string option \<times> string option \<times> rat option"

text \<open>The output row of a group; the bare columns of \<open>m\<close> are those of the group's rows.\<close>

definition summary_row :: "joined list \<Rightarrow> movie_summary list" where
  "summary_row g =
     (case g of
        [] \<Rightarrow> []
      | (m, _) # _ \<Rightarrow>
          [(m_id m, m_title m, m_year m, m_genre m, m_director m, avg_rating g, rating_count g)])"

definition search_row :: "joined list \<Rightarrow> search_result list" where
  "search_row g =
     (case g of
        [] \<Rightarrow> []
      | (m, _) # _ \<Rightarrow>
          [(m_id m, m_title m, m_year m, m_genre m, m_director m, avg_rating g)])"

definition summary_title :: "movie_summary \<Rightarrow> string" where
  "summary_title row = fst (snd row)"

definition result_title :: "search_result \<Rightarrow> string" where
  "result_title row = fst (snd row)"

definition get_all_movies :: "store \<Rightarrow> movie_summary list" where
  "get_all_movies s =
     sort_key summary_title
       (concat (map summary_row (group_by_id (left_join (movies s) (ratings s)))))"

text \<open>
  \<open>LIKE\<close> without \<open>ESCAPE\<close>: \<open>%\<close> matches any run of characters, \<open>_\<close> any one character,
  and any other character matches itself, the ASCII letters without regard to case.
\<close>

definition ascii_lower :: "char \<Rightarrow> char" where
  "ascii_lower c =
     (let n = (of_char c :: nat) in if 65 \<le> n \<and> n \<le> 90 then char_of (n + 32) else c)"

fun like :: "string \<Rightarrow> string \<Rightarrow> bool" where
  "like [] [] = True"
| "like [] (c # cs) = False"
| "like (p # ps) [] = (p = CHR ''%'' \<and> like ps [])"
| "like (p # ps) (c # cs) =
     (if p = CHR ''%'' then like ps (c # cs) \<or> like (p # ps) cs
      else (p = CHR ''_'' \<or> ascii_lower p = ascii_lower c) \<and> like ps cs)"

text \<open>\<open>search_movies\<close> binds the pattern \<open>f'%{search_term}%'\<close>.\<close>

definition search_movies :: "store \<Rightarrow> string \<Rightarrow> search_result list" where
  "search_movies s search_term =
     sort_key result_title
       (concat (map search_row
          (group_by_id
             (filter (\<lambda>j. like (''%'' @ search_term @ ''%'') (m_title (fst j)))
                (left_join (movies s) (ratings s))))))"

section \<open>Reachable stores\<close>

text \<open>
  The stores the program can hold: it starts from a fresh file, and every later store
  comes from an operation of \<open>MovieDatabase\<close> or from opening the file again.
\<close>

inductive reachable :: "store \<Rightarrow> bool" where
  fresh: "reachable (init empty_db)"
| reopen: "reachable s \<Longrightarrow> reachable (init s)"
| added_movie: "reachable s \<Longrightarrow> reachable (after s (add_movie s now title year genre director))"
| added_rating: "reachable s \<Longrightarrow> reachable (snd (add_rating s now movie_id v comment))"
| deleted_movie: "reachable s \<Longrightarrow> reachable (after s (delete_movie s movie_id))"

text \<open>
  The same runs, remembering every identifier that \<open>add_movie\<close> has returned so far, the
  latest first; identifiers of movies deleted since stay in the list.
\<close>

inductive assigned :: "int list \<Rightarrow> store \<Rightarrow> bool" where
  fresh_file: "assigned [] (init empty_db)"
| reopened: "assigned ids s \<Longrightarrow> assigned ids (init s)"
| movie_added: "assigned ids s \<Longrightarrow> add_movie s now title year genre director = Inr (i, s') \<Longrightarrow>
     assigned (i # ids) s'"
| rating_added: "assigned ids s \<Longrightarrow> assigned ids (snd (add_rating s now movie_id v comment))"
| movie_deleted: "assigned ids s \<Longrightarrow> assigned ids (after s (delete_movie s movie_id))"

section \<open>Two descriptions of the listing\<close>




text \<open>The select list of \<open>search_movies\<close> is that of \<open>get_all_movies\<close> without \<open>rating_count\<close>.\<close>

definition without_count :: "movie_summary \<Rightarrow> search_result" where
  "without_count row =
     (case row of (i, title, year, genre, director, avg, n) \<Rightarrow> (i, title, year, genre, director, avg))"

section \<open>Example runs\<close>

text \<open>
  One movie; the same with three ratings; then a second movie; the rated movie deleted
  again; and the one movie with the ratings 8, 8, 8 and 7.9, the last one the double
  that the literal \<open>7.9\<close> denotes.
\<close>

definition heat_store :: store where
  "heat_store =
     after (init empty_db)
       (add_movie (init empty_db) ''2024-01-01 10:00:00'' ''Heat'' (Some 1995)
          (Some ''Crime'') (Some ''Michael Mann''))"

definition rated_store :: store where
  "rated_store =
     snd (add_rating
            (snd (add_rating
                    (snd (add_rating heat_store ''2024-01-02 10:00:00'' 1 (Finite 8) None))
                    ''2024-01-03 10:00:00'' 1 (Finite 6) None))
            ''2024-01-04 10:00:00'' 1 (Finite 10) (Some ''Great''))"

definition two_movie_store :: store where
  "two_movie_store =
     after rated_store
       (add_movie rated_store ''2024-01-05 10:00:00'' ''Alien'' None None None)"

definition orphan_store :: store where
  "orphan_store = after rated_store (delete_movie rated_store 1)"



section \<open>Evaluating the example runs\<close>

lemmas op_defs = add_movie_def insert_movie_def add_rating_def insert_rating_def
  delete_movie_def sql_delete_movie_def init_def create_tables_def connect_def empty_db_def
  next_rowid_def movie_exists_def after_def int64_def bindable_def Let_def

lemma heat_store_eq:
  "heat_store =
     \<lparr>foreign_keys = False,
      movies = [\<lparr>m_id = 1, m_title = ''Heat'', m_year = Some 1995, m_genre = Some ''Crime'',
                 m_director = Some ''Michael Mann'', m_date_added = ''2024-01-01 10:00:00''\<rparr>],
      ratings = [], movies_seq = 1, ratings_seq = 0\<rparr>"
  by (simp add: heat_store_def op_defs)

lemma rated_store_eq:
  "rated_store =
     \<lparr>foreign_keys = False,
      movies = [\<lparr>m_id = 1, m_title = ''Heat'', m_year = Some 1995, m_genre = Some ''Crime'',
                 m_director = Some ''Michael Mann'', m_date_added = ''2024-01-01 10:00:00''\<rparr>],
      ratings = [\<lparr>r_id = 1, r_movie_id = 1, r_rating = 8, r_comment = None,
                  r_date_rated = ''2024-01-02 10:00:00''\<rparr>,
                 \<lparr>r_id = 2, r_movie_id = 1, r_rating = 6, r_comment = None,
                  r_date_rated = ''2024-01-03 10:00:00''\<rparr>,
                 \<lparr>r_id = 3, r_movie_id = 1, r_rating = 10, r_comment = Some ''Great'',
                  r_date_rated = ''2024-01-04 10:00:00''\<rparr>],
      movies_seq = 1, ratings_seq = 3\<rparr>"
  by (simp add: rated_store_def heat_store_eq op_defs)

lemma two_movie_store_eq:
  "two_movie_store =
     \<lparr>foreign_keys = False,
      movies = [\<lparr>m_id = 1, m_title = ''Heat'', m_year = Some 1995, m_genre = Some ''Crime'',
                 m_director = Some ''Michael Mann'', m_date_added = ''2024-01-01 10:00:00''\<rparr>,
                \<lparr>m_id = 2, m_title = ''Alien'', m_year = None, m_genre = None,
                 m_director = None, m_date_added = ''2024-01-05 10:00:00''\<rparr>],
      ratings = [\<lparr>r_id = 1, r_movie_id = 1, r_rating = 8, r_comment = None,
                  r_date_rated = ''2024-01-02 10:00:00''\<rparr>,
                 \<lparr>r_id = 2, r_movie_id = 1, r_rating = 6, r_comment = None,
                  r_date_rated = ''2024-01-03 10:00:00''\<rparr>,
                 \<lparr>r_id = 3, r_movie_id = 1, r_rating = 10, r_comment = Some ''Great'',
                  r_date_rated = ''2024-01-04 10:00:00''\<rparr>],
      movies_seq = 2, ratings_seq = 3\<rparr>"
  by (simp add: two_movie_store_def rated_store_eq op_defs)

lemma orphan_store_eq:
  "orphan_store =
     \<lparr>foreign_keys = False, movies = [],
      ratings = [\<lparr>r_id = 1, r_movie_id = 1, r_rating = 8, r_comment = None,
                  r_date_rated = ''2024-01-02 10:00:00''\<rparr>,
                 \<lparr>r_id = 2, r_movie_id = 1, r_rating = 6, r_comment = None,
                  r_date_rated = ''2024-01-03 10:00:00''\<rparr>,
                 \<lparr>r_id = 3, r_movie_id = 1, r_rating = 10, r_comment = Some ''Great'',
                  r_date_rated = ''2024-01-04 10:00:00''\<rparr>],
      movies_seq = 1, ratings_seq = 3\<rparr>"
  by (simp add: orphan_store_def rated_store_eq delete_movie_def sql_delete_movie_def
      after_def int64_def)


section \<open>Invariants of the reachable stores\<close>

lemma init_simps [simp]:
  "movies (init s) = movies s" "ratings (init s) = ratings s"
  "movies_seq (init s) = movies_seq s" "ratings_seq (init s) = ratings_seq s"
  "foreign_keys (init s) = False"
  by (simp_all add: init_def create_tables_def connect_def)

lemma add_rating_movies [simp]:
  "movies (snd (add_rating s now movie_id v comment)) = movies s"
  "movies_seq (snd (add_rating s now movie_id v comment)) = movies_seq s"
  "foreign_keys (snd (add_rating s now movie_id v comment)) = foreign_keys s"
  by (auto simp: add_rating_def insert_rating_def Let_def split: pyfloat.splits)

lemma after_delete_movie [simp]:
  "movies (after s (delete_movie s movie_id)) =
     (if int64 movie_id then filter (\<lambda>m. m_id m \<noteq> movie_id) (movies s) else movies s)"
  "movies_seq (after s (delete_movie s movie_id)) = movies_seq s"
  "foreign_keys (after s (delete_movie s movie_id)) = foreign_keys s"
  by (simp_all add: after_def delete_movie_def sql_delete_movie_def Let_def)

lemma after_add_movie [simp]:
  "ratings (after s (add_movie s now title year genre director)) = ratings s"
  "foreign_keys (after s (add_movie s now title year genre director)) = foreign_keys s"
  by (simp_all add: after_def add_movie_def insert_movie_def Let_def)

text \<open>No reachable store enforces foreign keys: no operation switches them on.\<close>

lemma reachable_foreign_keys_off: "reachable s \<Longrightarrow> \<not> foreign_keys s"
  by (induction rule: reachable.induct) simp_all

text \<open>
  Movie identifiers are positive, pairwise different and never above the counter of
  \<open>sqlite_sequence\<close>, so the next identifier is the counter plus one.
\<close>

lemma fold_max_bound: "\<forall>i\<in>set ids. i \<le> seq \<Longrightarrow> fold max ids (seq::int) = seq"
  by (induction ids arbitrary: seq) (auto simp: max_def)

lemma next_rowid_bounded: "\<forall>i\<in>set ids. i \<le> seq \<Longrightarrow> next_rowid seq ids = seq + 1"
  by (simp add: next_rowid_def fold_max_bound)

lemma add_movie_overflow:
  "\<not> bindable year \<Longrightarrow> add_movie s now title year genre director = Inl OverflowError"
  by (simp add: add_movie_def insert_movie_def)

lemma add_movie_unfold:
  assumes "bindable year"
    and "0 \<le> movies_seq s" and "\<forall>m\<in>set (movies s). 0 < m_id m \<and> m_id m \<le> movies_seq s"
  shows "add_movie s now title year genre director =
     Inr (movies_seq s + 1,
          s\<lparr>movies := movies s @
               [\<lparr>m_id = movies_seq s + 1, m_title = title, m_year = year, m_genre = genre,
                 m_director = director, m_date_added = now\<rparr>],
            movies_seq := movies_seq s + 1\<rparr>)"
  using assms by (simp add: add_movie_def insert_movie_def Let_def next_rowid_bounded)

lemma reachable_movie_ids:
  "reachable s \<Longrightarrow>
   0 \<le> movies_seq s \<and> (\<forall>m\<in>set (movies s). 0 < m_id m \<and> m_id m \<le> movies_seq s) \<and>
   distinct (map m_id (movies s))"
proof (induction rule: reachable.induct)
  case fresh
  then show ?case by (simp add: empty_db_def)
next
  case (reopen s)
  then show ?case by simp
next
  case (added_movie s now title year genre director)
  show ?case
  proof (cases "bindable year")
    case True
    then have "add_movie s now title year genre director =
       Inr (movies_seq s + 1,
            s\<lparr>movies := movies s @
                 [\<lparr>m_id = movies_seq s + 1, m_title = title, m_year = year, m_genre = genre,
                   m_director = director, m_date_added = now\<rparr>],
              movies_seq := movies_seq s + 1\<rparr>)"
      using added_movie.IH by (simp add: add_movie_unfold)
    then show ?thesis using added_movie.IH by (auto simp: after_def)
  next
    case False
    then show ?thesis using added_movie.IH by (simp add: add_movie_overflow after_def)
  qed
next
  case (added_rating s now movie_id v comment)
  then show ?case by simp
next
  case (deleted_movie s movie_id)
  then show ?case by (auto simp: distinct_map_filter)
qed

lemma assigned_reachable: "assigned ids s \<Longrightarrow> reachable s"
proof (induction rule: assigned.induct)
  case (movie_added ids s now title year genre director i s')
  then show ?case
    using reachable.added_movie[of s now title year genre director] by (simp add: after_def)
qed (auto intro: reachable.intros)

lemma assigned_bounded: "assigned ids s \<Longrightarrow> j \<in> set ids \<Longrightarrow> 0 < j \<and> j \<le> movies_seq s"
proof (induction arbitrary: j rule: assigned.induct)
  case (movie_added ids s now title year genre director i s')
  have b: "0 \<le> movies_seq s" "\<forall>m\<in>set (movies s). 0 < m_id m \<and> m_id m \<le> movies_seq s"
    using movie_added.hyps(1) reachable_movie_ids[of s] by (simp_all add: assigned_reachable)
  have "bindable year"
    using movie_added.hyps(2) add_movie_overflow[of year s now title genre director] by auto
  then have "i = movies_seq s + 1" "movies_seq s' = movies_seq s + 1"
    using b movie_added.hyps(2) by (auto simp: add_movie_unfold)
  then show ?case using b(1) movie_added.IH movie_added.prems by fastforce
qed auto

lemma assigned_heat_store: "assigned [1] heat_store"
proof -
  have "add_movie (init empty_db) ''2024-01-01 10:00:00'' ''Heat'' (Some 1995)
            (Some ''Crime'') (Some ''Michael Mann'') = Inr (1, heat_store)"
    by (simp add: heat_store_eq) (simp add: op_defs)
  then show ?thesis using assigned.movie_added[OF assigned.fresh_file] by blast
qed

lemma assigned_rated_store: "assigned [1] rated_store"
  unfolding rated_store_def by (intro assigned.rating_added assigned_heat_store)

lemma reachable_rated_store: "reachable rated_store"
  by (rule assigned_reachable) (rule assigned_rated_store)



section \<open>Adding a rating for a movie that does not exist\<close>

text \<open>
  Claim C1: for every store and every \<open>movie_id\<close> that identifies no movie, \<open>add_rating\<close>
  returns \<open>False\<close> and inserts no row. On the connection that \<open>connect\<close> opens the
  foreign key is not enforced: on a fresh store, where movie 1 does not exist,
  \<open>add_rating\<close> for movie 1 returns \<open>True\<close> and the ratings table gains a row.
\<close>

theorem add_rating_missing_movie_inserts:
  "\<not> movie_exists (init empty_db) 1 \<and>
   add_rating (init empty_db) ''2024-01-01 10:00:00'' 1 (Finite 5) None =
     (True,
      \<lparr>foreign_keys = False, movies = [],
       ratings = [\<lparr>r_id = 1, r_movie_id = 1, r_rating = 5, r_comment = None,
                   r_date_rated = ''2024-01-01 10:00:00''\<rparr>],
       movies_seq = 0, ratings_seq = 1\<rparr>)"
  by (simp add: add_rating_def insert_rating_def init_def create_tables_def connect_def
      empty_db_def next_rowid_def movie_exists_def)

section \<open>Deleting a movie that has ratings\<close>

text \<open>
  Claim C2: every rating's \<open>movie_id\<close> resolves to an existing movie in every reachable
  store, and \<open>delete_movie\<close> on a movie with N ratings removes the movie and its N ratings,
  so that \<open>get_movie_ratings\<close> on that id is empty afterwards. The cascade of the schema
  runs only where foreign keys are enforced, and the connection does not enforce them:
  deleting the movie of \<open>rated_store\<close>, which has three ratings, returns \<open>True\<close>, keeps
  all three rating rows, now pointing at no movie, and \<open>get_movie_ratings\<close> still
  returns them.
\<close>

theorem delete_movie_leaves_ratings:
  "reachable rated_store \<and> movie_exists rated_store 1 \<and>
   length (filter (\<lambda>r. r_movie_id r = 1) (ratings rated_store)) = 3 \<and>
   delete_movie rated_store 1 = Inr (True, orphan_store) \<and>
   ratings orphan_store = ratings rated_store \<and>
   \<not> movie_exists orphan_store 1 \<and>
   get_movie_ratings orphan_store 1 =
     [(10, Some ''Great'', ''2024-01-04 10:00:00''),
      (6, None, ''2024-01-03 10:00:00''),
      (8, None, ''2024-01-02 10:00:00'')]"
proof -
  have g: "get_movie_ratings orphan_store 1 =
     [(10, Some ''Great'', ''2024-01-04 10:00:00''),
      (6, None, ''2024-01-03 10:00:00''),
      (8, None, ''2024-01-02 10:00:00'')]"
    by (simp add: orphan_store_eq get_movie_ratings_def order_by_desc_def)
  have d: "delete_movie rated_store 1 = Inr (True, orphan_store)"
    by (simp add: orphan_store_eq)
      (simp add: rated_store_eq delete_movie_def sql_delete_movie_def int64_def)
  have e: "movie_exists rated_store 1"
    "length (filter (\<lambda>r. r_movie_id r = 1) (ratings rated_store)) = 3"
    by (simp_all add: rated_store_eq movie_exists_def)
  have o: "ratings orphan_store = ratings rated_store" "\<not> movie_exists orphan_store 1"
    by (simp_all add: orphan_store_eq rated_store_eq movie_exists_def)
  show ?thesis using reachable_rated_store g d e o by simp
qed

section \<open>The range check on ratings\<close>

lemma add_rating_in_range:
  "0 \<le> q \<Longrightarrow> q \<le> 10 \<Longrightarrow> movie_exists s movie_id \<Longrightarrow>
   add_rating s now movie_id (Finite q) comment =
     (True, s\<lparr>ratings := ratings s @
                 [\<lparr>r_id = next_rowid (ratings_seq s) (map r_id (ratings s)), r_movie_id = movie_id,
                   r_rating = q, r_comment = comment, r_date_rated = now\<rparr>],
               ratings_seq := next_rowid (ratings_seq s) (map r_id (ratings s))\<rparr>)"
  by (simp add: add_rating_def insert_rating_def Let_def)

lemma add_rating_out_of_range:
  "q < 0 \<or> q > 10 \<Longrightarrow> add_rating s now movie_id (Finite q) comment = (False, s)"
  by (auto simp: add_rating_def insert_rating_def)

lemma add_rating_not_finite:
  "v \<in> {PosInf, NegInf, NaN} \<Longrightarrow> add_rating s now movie_id v comment = (False, s)"
  by (auto simp: add_rating_def insert_rating_def)

lemma add_rating_ratings:
  "set (ratings (snd (add_rating s now movie_id v comment))) \<subseteq>
     set (ratings s) \<union> {r. 0 \<le> r_rating r \<and> r_rating r \<le> 10}"
  by (auto simp: add_rating_def insert_rating_def Let_def split: pyfloat.splits)

lemma delete_movie_ratings:
  "set (ratings (after s (delete_movie s movie_id))) \<subseteq> set (ratings s)"
  by (auto simp: after_def delete_movie_def sql_delete_movie_def Let_def)

lemma reachable_ratings_in_range:
  "reachable s \<Longrightarrow> r \<in> set (ratings s) \<Longrightarrow> 0 \<le> r_rating r \<and> r_rating r \<le> 10"
proof (induction arbitrary: r rule: reachable.induct)
  case fresh
  then show ?case by (simp add: empty_db_def)
next
  case (reopen s)
  then show ?case by simp
next
  case (added_movie s now title year genre director)
  then show ?case by simp
next
  case (added_rating s now movie_id v comment)
  then show ?case using add_rating_ratings[of s now movie_id v comment] by blast
next
  case (deleted_movie s movie_id)
  then show ?case using delete_movie_ratings[of s movie_id] by blast
qed

text \<open>
  Claim C3: for every rating \<open>q\<close> with \<open>0 \<le> q \<le> 10\<close> and every existing movie,
  \<open>add_rating\<close> succeeds (and appends the row); for \<open>q < 0\<close> or \<open>q > 10\<close>, and for the
  non-finite floats, it returns \<open>False\<close> and leaves the store as it was; so every
  rating of a reachable store lies in the closed interval from 0 to 10.
\<close>

theorem add_rating_range_check:
  "(0 \<le> q \<and> q \<le> 10 \<and> movie_exists s movie_id \<longrightarrow>
      fst (add_rating s now movie_id (Finite q) comment) \<and>
      ratings (snd (add_rating s now movie_id (Finite q) comment)) =
        ratings s @ [\<lparr>r_id = next_rowid (ratings_seq s) (map r_id (ratings s)),
                       r_movie_id = movie_id, r_rating = q, r_comment = comment,
                       r_date_rated = now\<rparr>]) \<and>
   (q < 0 \<or> q > 10 \<longrightarrow> add_rating s now movie_id (Finite q) comment = (False, s)) \<and>
   add_rating s now movie_id PosInf comment = (False, s) \<and>
   add_rating s now movie_id NegInf comment = (False, s) \<and>
   add_rating s now movie_id NaN comment = (False, s) \<and>
   (reachable s \<longrightarrow> (\<forall>r \<in> set (ratings s). 0 \<le> r_rating r \<and> r_rating r \<le> 10))"
  using add_rating_in_range[of q s movie_id now comment]
    add_rating_out_of_range[of q s now movie_id comment]
    add_rating_not_finite[of _ s now movie_id comment]
    reachable_ratings_in_range[of s]
  by auto

theorem add_rating_range_check_witness:
  "movie_exists heat_store 1 \<and>
   fst (add_rating heat_store ''2024-01-02 10:00:00'' 1 (Finite 8) None) \<and>
   add_rating heat_store ''2024-01-02 10:00:00'' 1 (Finite 11) None = (False, heat_store) \<and>
   reachable rated_store \<and>
   list_all (\<lambda>r. 0 \<le> r_rating r \<and> r_rating r \<le> 10) (ratings rated_store)"
proof -
  have e: "movie_exists heat_store 1" by (simp add: heat_store_eq movie_exists_def)
  show ?thesis
    using e reachable_rated_store
      add_rating_range_check[of 8 heat_store 1 "''2024-01-02 10:00:00''" None]
      add_rating_range_check[of 11 heat_store 1 "''2024-01-02 10:00:00''" None]
      add_rating_range_check[of 0 rated_store 1 "''2024-01-02 10:00:00''" None]
    by (simp add: list_all_iff)
qed

section \<open>The aggregates of \<open>get_all_movies\<close>\<close>



lemma join_rows_ids: "set (map (\<lambda>j. m_id (fst j)) (join_rows m rs)) = {m_id m}"
  by (auto simp: join_rows_def split: list.splits)

lemma left_join_ids: "set (map (\<lambda>j. m_id (fst j)) (left_join ms rs)) = set (map m_id ms)"
proof (induction ms)
  case Nil
  then show ?case by (simp add: left_join_def)
next
  case (Cons a ms)
  have "left_join (a # ms) rs = join_rows a rs @ left_join ms rs"
    by (simp add: left_join_def)
  then show ?case using Cons.IH join_rows_ids[of a rs] by simp
qed










lemma round2_nearest: "\<bar>round2 x - x\<bar> \<le> 1 / 200"
proof -
  have f: "\<bar>of_int \<lfloor>y + 1 / 2\<rfloor> - y\<bar> \<le> 1 / 2" for y :: rat
    by linarith
  show ?thesis
  proof (cases "x < 0")
    case True
    define n where "n = \<lfloor>- x * 100 + 1 / 2\<rfloor>"
    have "\<bar>of_int n - (- x * 100)\<bar> \<le> 1 / 2" unfolding n_def by (rule f)
    moreover have "round2 x = - (of_int n / 100)"
      using True by (simp only: round2_def n_def if_True)
    ultimately show ?thesis by (simp only: abs_le_iff) linarith
  next
    case False
    define n where "n = \<lfloor>x * 100 + 1 / 2\<rfloor>"
    have "\<bar>of_int n - x * 100\<bar> \<le> 1 / 2" unfolding n_def by (rule f)
    moreover have "round2 x = of_int n / 100"
      using False by (simp only: round2_def n_def if_False)
    ultimately show ?thesis by (simp only: abs_le_iff) linarith
  qed
qed








section \<open>Adding a movie\<close>

text \<open>
  Claim C5, as stated: \<open>add_movie\<close> with an empty title fails with a validation error and
  inserts no row. It does not: on a fresh store \<open>add_movie\<close> with the empty title returns
  the identifier 1 and the movies table holds a row with the empty title.
\<close>

theorem add_movie_empty_title_inserts:
  "add_movie (init empty_db) ''2024-01-01 10:00:00'' '''' None None None =
     Inr (1, \<lparr>foreign_keys = False,
              movies = [\<lparr>m_id = 1, m_title = '''', m_year = None, m_genre = None,
                         m_director = None, m_date_added = ''2024-01-01 10:00:00''\<rparr>],
              ratings = [], movies_seq = 1, ratings_seq = 0\<rparr>)"
  by (simp add: op_defs)

text \<open>
  Claim C5, amended: \<open>add_movie\<close> validates no title. For every title, empty or not, and
  every year that is absent or a signed 64-bit integer, it succeeds: it returns the
  next identifier and appends one row with that identifier and the title, year, genre
  and director given.
\<close>

theorem add_movie_any_title:
  "bindable year \<Longrightarrow>
   add_movie s now title year genre director =
     Inr (next_rowid (movies_seq s) (map m_id (movies s)),
          s\<lparr>movies := movies s @
               [\<lparr>m_id = next_rowid (movies_seq s) (map m_id (movies s)), m_title = title,
                 m_year = year, m_genre = genre, m_director = director, m_date_added = now\<rparr>],
            movies_seq := next_rowid (movies_seq s) (map m_id (movies s))\<rparr>)"
  by (simp add: add_movie_def insert_movie_def Let_def)

theorem add_movie_any_title_witness:
  "bindable (Some 1995) \<and>
   add_movie heat_store ''2024-01-07 10:00:00'' '''' (Some 1995) None None =
     Inr (2, heat_store\<lparr>movies := movies heat_store @
                          [\<lparr>m_id = 2, m_title = '''', m_year = Some 1995, m_genre = None,
                            m_director = None, m_date_added = ''2024-01-07 10:00:00''\<rparr>],
                        movies_seq := 2\<rparr>)"
proof -
  have b: "bindable (Some 1995)" by (simp add: bindable_def int64_def)
  have n: "next_rowid (movies_seq heat_store) (map m_id (movies heat_store)) = 2"
    by (simp add: heat_store_eq next_rowid_def)
  show ?thesis
    using b add_movie_any_title[OF b, of heat_store "''2024-01-07 10:00:00''" "''''" None None]
    by (simp add: n)
qed

lemma get_movie_by_id_added:
  assumes "0 \<le> movies_seq s" and "\<forall>m\<in>set (movies s). 0 < m_id m \<and> m_id m \<le> movies_seq s"
  shows "get_movie_by_id
           (s\<lparr>movies := movies s @
                [\<lparr>m_id = movies_seq s + 1, m_title = title, m_year = year, m_genre = genre,
                  m_director = director, m_date_added = now\<rparr>],
              movies_seq := movies_seq s + 1\<rparr>)
           (movies_seq s + 1) =
         Some (movies_seq s + 1, title, year, genre, director, now)"
proof -
  have "filter (\<lambda>m. m_id m = movies_seq s + 1) (movies s) = []"
    using assms by (auto simp: filter_empty_conv)
  then show ?thesis by (simp add: get_movie_by_id_def)
qed

text \<open>
  Claim C6, as stated: for all valid title, optional year, genre and director,
  \<open>add_movie\<close> followed by \<open>get_movie_by_id\<close> returns the inputs. The specification puts
  no bound on the year, and the store does: with the year \<open>10 ^ 20\<close> \<open>add_movie\<close> raises
  \<open>OverflowError\<close>, returns no identifier and inserts no row.
\<close>

theorem add_movie_year_overflow:
  "add_movie (init empty_db) ''2024-01-01 10:00:00'' ''Heat'' (Some (10 ^ 20)) None None =
     Inl OverflowError \<and>
   after (init empty_db)
     (add_movie (init empty_db) ''2024-01-01 10:00:00'' ''Heat'' (Some (10 ^ 20)) None None) =
     init empty_db"
  by (simp add: add_movie_def insert_movie_def bindable_def int64_def after_def)

text \<open>
  Claim C6, amended: on a store reached by the program, with \<open>ids\<close> the identifiers
  handed out so far, and for a year that is absent or a signed 64-bit integer,
  \<open>add_movie\<close> returns an identifier, and \<open>get_movie_by_id\<close> on it yields the title, year,
  genre and director given; the identifier is positive, greater than every identifier
  handed out before (those of deleted movies included), and names no movie of the store
  before the call.
\<close>

theorem add_movie_roundtrip_fresh_id:
  assumes "assigned ids s" and "bindable year"
  shows "\<exists>i s'. add_movie s now title year genre director = Inr (i, s') \<and>
           get_movie_by_id s' i = Some (i, title, year, genre, director, now) \<and>
           0 < i \<and> (\<forall>j \<in> set ids. j < i) \<and> \<not> movie_exists s i"
proof -
  let ?i = "movies_seq s + 1"
  let ?s' = "s\<lparr>movies := movies s @
                  [\<lparr>m_id = ?i, m_title = title, m_year = year, m_genre = genre,
                    m_director = director, m_date_added = now\<rparr>],
                movies_seq := ?i\<rparr>"
  have b: "0 \<le> movies_seq s" "\<forall>m\<in>set (movies s). 0 < m_id m \<and> m_id m \<le> movies_seq s"
    using assms(1) reachable_movie_ids[of s] by (simp_all add: assigned_reachable)
  have "add_movie s now title year genre director = Inr (?i, ?s')"
    using assms(2) b by (rule add_movie_unfold)
  moreover have "get_movie_by_id ?s' ?i = Some (?i, title, year, genre, director, now)"
    using b by (rule get_movie_by_id_added)
  moreover have "0 < ?i" using b by simp
  moreover have "\<forall>j \<in> set ids. j < ?i"
    using assigned_bounded[OF assms(1)] by fastforce
  moreover have "\<not> movie_exists s ?i"
    using b by (auto simp: movie_exists_def)
  ultimately show ?thesis by blast
qed

theorem add_movie_roundtrip_fresh_id_witness:
  "assigned [1] orphan_store \<and> bindable (Some 1979) \<and> \<not> movie_exists orphan_store 1 \<and>
   (\<exists>s'. add_movie orphan_store ''2024-01-06 10:00:00'' ''Alien'' (Some 1979) None None =
           Inr (2, s') \<and>
         get_movie_by_id s' 2 =
           Some (2, ''Alien'', Some 1979, None, None, ''2024-01-06 10:00:00''))"
proof -
  have a: "assigned [1] orphan_store"
    unfolding orphan_store_def by (rule assigned.movie_deleted) (rule assigned_rated_store)
  have b: "bindable (Some 1979)" by (simp add: bindable_def int64_def)
  have n: "\<not> movie_exists orphan_store 1" by (simp add: orphan_store_eq movie_exists_def)
  have i: "\<exists>s'. add_movie orphan_store ''2024-01-06 10:00:00'' ''Alien'' (Some 1979) None None =
     Inr (2, s')"
    by (simp add: orphan_store_eq op_defs)
  obtain i s' where
    r: "add_movie orphan_store ''2024-01-06 10:00:00'' ''Alien'' (Some 1979) None None = Inr (i, s')"
      "get_movie_by_id s' i = Some (i, ''Alien'', Some 1979, None, None, ''2024-01-06 10:00:00'')"
    using add_movie_roundtrip_fresh_id[OF a b, of "''2024-01-06 10:00:00''" "''Alien''" None None]
    by blast
  then have "i = 2" using i by auto
  then show ?thesis using a b n r by blast
qed

section \<open>Order of the listings\<close>

text \<open>
  Claim C7: for every store the rows of \<open>get_all_movies\<close> are sorted by title, ascending
  in the lexicographic order of the characters, and for every search term so are the
  rows of \<open>search_movies\<close>.
\<close>

theorem listings_sorted_by_title:
  "sorted (map summary_title (get_all_movies s)) \<and>
   sorted (map result_title (search_movies s search_term))"
  by (simp add: get_all_movies_def search_movies_def)

section \<open>The ratings of a movie\<close>

lemma set_insort_desc: "set (insort_desc f x xs) = insert x (set xs)"
  by (induction xs) auto

lemma mset_insort_desc: "mset (insort_desc f x xs) = add_mset x (mset xs)"
  by (induction xs) auto

lemma sorted_insort_desc:
  "sorted_wrt (\<lambda>a b. f a \<ge> f b) xs \<Longrightarrow> sorted_wrt (\<lambda>a b. f a \<ge> f b) (insort_desc f x xs)"
  by (induction xs) (auto simp: set_insort_desc)

lemma mset_order_by_desc: "mset (order_by_desc f xs) = mset xs"
  by (induction xs) (auto simp: order_by_desc_def mset_insort_desc)

lemma sorted_order_by_desc: "sorted_wrt (\<lambda>a b. f a \<ge> f b) (order_by_desc f xs)"
  by (induction xs) (auto simp: order_by_desc_def sorted_insort_desc)

text \<open>
  \<open>get_movie_ratings\<close> returns the rating rows that carry the given \<open>movie_id\<close>, all of
  them, the latest \<open>date_rated\<close> first.
\<close>

lemma get_movie_ratings_ordered:
  "sorted_wrt (\<lambda>a b. snd (snd a) \<ge> snd (snd b)) (get_movie_ratings s movie_id) \<and>
   mset (get_movie_ratings s movie_id) =
     mset (map (\<lambda>r. (r_rating r, r_comment r, r_date_rated r))
            (filter (\<lambda>r. r_movie_id r = movie_id) (ratings s)))"
proof -
  have "sorted_wrt (\<lambda>a b. r_date_rated a \<ge> r_date_rated b)
          (order_by_desc r_date_rated (filter (\<lambda>r. r_movie_id r = movie_id) (ratings s)))"
    by (rule sorted_order_by_desc)
  then have "sorted_wrt (\<lambda>a b. snd (snd a) \<ge> snd (snd b)) (get_movie_ratings s movie_id)"
    by (simp add: get_movie_ratings_def sorted_wrt_map)
  moreover have "mset (get_movie_ratings s movie_id) =
     mset (map (\<lambda>r. (r_rating r, r_comment r, r_date_rated r))
            (filter (\<lambda>r. r_movie_id r = movie_id) (ratings s)))"
    by (simp add: get_movie_ratings_def mset_order_by_desc)
  ultimately show ?thesis by simp
qed

text \<open>
  Claim C8: \<open>get_movie_ratings\<close> returns the ratings of the movie, the most recent first,
  and the empty list when the movie has no ratings or does not exist. The order holds
  (lemma \<open>get_movie_ratings_ordered\<close>); the last part does not: the store accepts a rating
  for movie 7 on a fresh file, and \<open>get_movie_ratings\<close> then returns that rating for
  movie 7, which does not exist.
\<close>

theorem get_movie_ratings_missing_movie:
  "\<not> movie_exists (snd (add_rating (init empty_db) ''2024-01-01 10:00:00'' 7 (Finite 5) None)) 7 \<and>
   get_movie_ratings (snd (add_rating (init empty_db) ''2024-01-01 10:00:00'' 7 (Finite 5) None)) 7 =
     [(5, None, ''2024-01-01 10:00:00'')]"
  by (simp add: op_defs get_movie_ratings_def order_by_desc_def)

section \<open>Deleting a movie that does not exist\<close>

lemma filter_other_ids: "filter (\<lambda>m. m_id m \<noteq> k) ms = ms \<longleftrightarrow> k \<notin> set (map m_id ms)"
  by (auto simp: filter_id_conv)

lemma filter_this_id: "filter (\<lambda>m. m_id m = k) ms = [] \<longleftrightarrow> k \<notin> set (map m_id ms)"
  by (auto simp: filter_empty_conv)

lemma delete_movie_missing:
  "int64 movie_id \<Longrightarrow> \<not> movie_exists s movie_id \<Longrightarrow> delete_movie s movie_id = Inr (False, s)"
  by (simp add: delete_movie_def sql_delete_movie_def Let_def movie_exists_def
      filter_other_ids[simplified] filter_this_id[simplified])

lemma delete_movie_result:
  "int64 movie_id \<Longrightarrow>
   delete_movie s movie_id =
     Inr (movie_exists s movie_id, after s (delete_movie s movie_id))"
  by (simp add: delete_movie_def sql_delete_movie_def Let_def movie_exists_def after_def
      filter_this_id[simplified])

lemma delete_movie_removes:
  "int64 movie_id \<Longrightarrow>
   movie_exists s movie_id = (movies (after s (delete_movie s movie_id)) \<noteq> movies s)"
  by (simp add: movie_exists_def filter_other_ids[simplified])

text \<open>
  Claim C9, as stated: for every \<open>movie_id\<close> that does not exist \<open>delete_movie\<close> returns
  \<open>False\<close> and raises no error. For an identifier that is no signed 64-bit integer it
  raises: on a fresh store, where no movie exists, \<open>delete_movie\<close> of \<open>2 ^ 63\<close> ends in
  \<open>OverflowError\<close>.
\<close>

theorem delete_movie_id_overflow:
  "\<not> movie_exists (init empty_db) (2 ^ 63) \<and>
   delete_movie (init empty_db) (2 ^ 63) = Inl OverflowError"
  by (simp add: delete_movie_def sql_delete_movie_def int64_def movie_exists_def empty_db_def)

text \<open>
  Claim C9, amended: for every \<open>movie_id\<close> that is a signed 64-bit integer,
  \<open>delete_movie\<close> raises no error; if the identifier names no movie of the store it
  returns \<open>False\<close> and the store is unchanged; and it returns \<open>True\<close> exactly when the
  movie exists, which is exactly when the movies table loses a row.
\<close>

theorem delete_movie_missing_noop:
  assumes "int64 movie_id"
  shows "(\<not> movie_exists s movie_id \<longrightarrow> delete_movie s movie_id = Inr (False, s)) \<and>
         (\<exists>deleted s'. delete_movie s movie_id = Inr (deleted, s') \<and>
            deleted = movie_exists s movie_id \<and>
            deleted = (movies s' \<noteq> movies s))"
proof -
  have "delete_movie s movie_id =
      Inr (movie_exists s movie_id, after s (delete_movie s movie_id))"
    using assms by (rule delete_movie_result)
  moreover have
    "movie_exists s movie_id = (movies (after s (delete_movie s movie_id)) \<noteq> movies s)"
    using assms by (rule delete_movie_removes)
  ultimately show ?thesis
    using delete_movie_missing[OF assms, of s] by blast
qed

theorem delete_movie_missing_noop_witness:
  "int64 999 \<and> \<not> movie_exists (init empty_db) 999 \<and>
   delete_movie (init empty_db) 999 = Inr (False, init empty_db) \<and>
   int64 1 \<and> movie_exists rated_store 1 \<and>
   (\<exists>s'. delete_movie rated_store 1 = Inr (True, s') \<and> movies s' \<noteq> movies rated_store)"
proof -
  have i: "int64 999" "int64 1" by (simp_all add: int64_def)
  have n: "\<not> movie_exists (init empty_db) 999" by (simp add: op_defs)
  have e: "movie_exists rated_store 1" by (simp add: rated_store_eq movie_exists_def)
  show ?thesis
    using i n e delete_movie_missing_noop[OF i(1), of "init empty_db"]
      delete_movie_missing_noop[OF i(2), of rated_store]
    by auto
qed

section \<open>Wildcards in the search term\<close>

lemma map_insort_key:
  "map f (insort_key (\<lambda>x. k (f x)) x xs) = insort_key k (f x) (map f xs)"
  by (induction xs) auto

lemma map_sort_key: "map f (sort_key (\<lambda>x. k (f x)) xs) = sort_key k (map f xs)"
  by (induction xs) (auto simp: map_insort_key)

lemma like_percent: "like ''%'' x"
  by (induction x) auto

lemma like_percent2: "like ''%%'' x"
  by (induction x) (auto simp: like_percent)

lemma like_percent3: "like ''%%%'' x"
  by (induction x) (auto simp: like_percent2)

lemma search_row_summary_row: "search_row g = map without_count (summary_row g)"
  by (auto simp: search_row_def summary_row_def without_count_def split: list.splits)

lemma result_title_without_count: "result_title (without_count row) = summary_title row"
  by (cases row) (simp add: result_title_def summary_title_def without_count_def)

lemma search_rows_summary_rows:
  "concat (map search_row gs) = map without_count (concat (map summary_row gs))"
  by (induction gs) (auto simp: search_row_summary_row)

text \<open>A pattern that matches every title makes \<open>search_movies\<close> list the whole catalogue.\<close>

lemma search_movies_all:
  assumes "\<And>x. like (''%'' @ search_term @ ''%'') x"
  shows "search_movies s search_term = map without_count (get_all_movies s)"
proof -
  have "sort_key result_title (map without_count xs) =
        map without_count (sort_key summary_title xs)" for xs
    using map_sort_key[of without_count result_title xs]
    by (simp add: result_title_without_count)
  then show ?thesis
    using assms by (simp add: search_movies_def get_all_movies_def search_rows_summary_rows)
qed

lemma search_movies_percent: "search_movies s ''%'' = map without_count (get_all_movies s)"
  by (rule search_movies_all) (simp add: like_percent3)

lemma search_movies_empty_term: "search_movies s '''' = map without_count (get_all_movies s)"
  by (rule search_movies_all) (simp add: like_percent2)

lemma summary_row_id:
  assumes "k \<in> set (map (\<lambda>j. m_id (fst j)) js)"
  shows "map fst (summary_row (filter (\<lambda>j. m_id (fst j) = k) js)) = [k]"
proof -
  obtain j where "j \<in> set js" "m_id (fst j) = k" using assms by auto
  then have "filter (\<lambda>j. m_id (fst j) = k) js \<noteq> []" by (auto simp: filter_empty_conv)
  then obtain a g where g: "filter (\<lambda>j. m_id (fst j) = k) js = a # g"
    by (cases "filter (\<lambda>j. m_id (fst j) = k) js") auto
  then have "a \<in> set (filter (\<lambda>j. m_id (fst j) = k) js)" by simp
  then have "m_id (fst a) = k" by simp
  then show ?thesis using g by (cases a) (simp add: summary_row_def)
qed

lemma get_all_movies_ids: "set (map fst (get_all_movies s)) = set (map m_id (movies s))"
proof -
  let ?J = "left_join (movies s) (ratings s)"
  let ?ks = "sort (remdups (map (\<lambda>j. m_id (fst j)) ?J))"
  have "map fst (concat (map (\<lambda>k. summary_row (filter (\<lambda>j. m_id (fst j) = k) ?J)) ks)) = ks"
    if "set ks \<subseteq> set (map (\<lambda>j. m_id (fst j)) ?J)" for ks
    using that
  proof (induction ks)
    case Nil
    then show ?case by simp
  next
    case (Cons k ks)
    then show ?case using summary_row_id[of k ?J] by simp
  qed
  then have b: "map fst (concat (map (\<lambda>k. summary_row (filter (\<lambda>j. m_id (fst j) = k) ?J)) ?ks)) = ?ks"
    by simp
  have a: "get_all_movies s =
      sort_key summary_title (concat (map (\<lambda>k. summary_row (filter (\<lambda>j. m_id (fst j) = k) ?J)) ?ks))"
    by (simp add: get_all_movies_def group_by_id_def comp_def)
  have "set (map fst (get_all_movies s)) =
      set (map fst (concat (map (\<lambda>k. summary_row (filter (\<lambda>j. m_id (fst j) = k) ?J)) ?ks)))"
    by (simp only: a set_map set_sort)
  also have "\<dots> = set ?ks" by (simp only: b)
  also have "\<dots> = set (map m_id (movies s))"
    using left_join_ids[of "movies s" "ratings s"] by (simp only: set_sort set_remdups)
  finally show ?thesis .
qed

text \<open>
  Claim C10: \<open>search_movies\<close> matches titles with \<open>LIKE\<close> against the search term between
  two \<open>%\<close>, so \<open>%\<close> and \<open>_\<close> in the term are wildcards. For every store the searches for
  \<open>%\<close> and for the empty term return the rows of \<open>get_all_movies\<close> (without the count), one
  for every movie identifier of the catalogue; in the store of the two movies Heat and
  Alien, whose titles contain neither \<open>%\<close> nor \<open>_\<close>, the search for \<open>%\<close> returns both and
  the search for \<open>_l\<close> returns Alien.
\<close>

theorem search_movies_wildcards:
  "search_movies s ''%'' = map without_count (get_all_movies s) \<and>
   search_movies s '''' = map without_count (get_all_movies s) \<and>
   set (map fst (search_movies s ''%'')) = set (map m_id (movies s)) \<and>
   set (map fst (search_movies s '''')) = set (map m_id (movies s)) \<and>
   search_movies two_movie_store ''%'' =
     [(2, ''Alien'', None, None, None, None),
      (1, ''Heat'', Some 1995, Some ''Crime'', Some ''Michael Mann'', Some 8)] \<and>
   search_movies two_movie_store ''_l'' = [(2, ''Alien'', None, None, None, None)]"
proof -
  have f: "fst (without_count row) = fst row" for row
    by (cases row) (simp add: without_count_def)
  have ids: "set (map fst (map without_count (get_all_movies s))) = set (map m_id (movies s))"
    using get_all_movies_ids[of s] by (simp add: f comp_def)
  have v1: "search_movies two_movie_store ''%'' =
     [(2, ''Alien'', None, None, None, None),
      (1, ''Heat'', Some 1995, Some ''Crime'', Some ''Michael Mann'', Some 8)]"
    by code_simp
  have v2: "search_movies two_movie_store ''_l'' = [(2, ''Alien'', None, None, None, None)]"
    by code_simp
  have i1: "set (map fst (search_movies s ''%'')) = set (map m_id (movies s))"
    using ids by (simp only: search_movies_percent)
  have i2: "set (map fst (search_movies s '''')) = set (map m_id (movies s))"
    using ids by (simp only: search_movies_empty_term)
  show ?thesis
    using search_movies_percent[of s] search_movies_empty_term[of s] i1 i2 v1 v2 by blast
qed

end
